theory Spec2Isabelle
  imports Main "HOL-Library.AList"
begin

section \<open>Data model (src/lib/types.ts)\<close>

text \<open>
  \<^verbatim>\<open>JsonValue = string | number | boolean | null | JsonValue[] | { [key: string]: JsonValue }\<close>.
  The path functions are typed \<^verbatim>\<open>JsonValue | undefined\<close> and at run time
  \<^verbatim>\<open>undefined\<close> can also end up stored inside a container, so the run-time values get
  one more constructor, \<open>JUndefined\<close>. The values the TypeScript type admits are
  those satisfying \<open>wf_json\<close> below. The tree functions never inspect a number, so
  the type of numbers is a parameter \<open>'n\<close>.

  An object is the list of its own enumerable properties in the order
  \<^verbatim>\<open>Object.entries\<close> lists them; its keys are distinct. An array is the list of its
  elements; a hole of a sparse array is represented by \<open>JUndefined\<close>, which is what
  reading it and spreading it give. Property keys are those of parsed JSON documents
  and are read and written as own data properties (members inherited from
  \<^verbatim>\<open>Object.prototype\<close> are outside the model).
\<close>

datatype 'n JsonValue =
    JUndefined
  | JNull
  | JBoolean bool
  | JNumber 'n
  | JString string
  | JArray "'n JsonValue list"
  | JObject "(string \<times> 'n JsonValue) list"

text \<open>
  \<^verbatim>\<open>JsonPath = Array<string | number>\<close>. The numbers the editor puts into a path are
  the indices of \<^verbatim>\<open>{#each arrayItems as item, index}\<close>: natural numbers, below the
  limit of an array's length.
\<close>

datatype seg = Key string | Idx nat

type_synonym JsonPath = "seg list"


datatype ConfigSource = Binary | Partial | Fallback

datatype RunMode = BuildSpecLib | SearchDia

record 'n ConfigState =
  defaults :: "'n JsonValue"
  current :: "'n JsonValue"
  important :: "string set"
  source :: ConfigSource
  lastLoadedPath :: "string option"
  persistedPath :: "string option"

text \<open>The part of the state of \<^verbatim>\<open>App.svelte\<close> that the configuration handlers write.\<close>

record 'n Host =
  configStates :: "RunMode \<Rightarrow> 'n ConfigState option"
  runError :: "string option"

fun is_scalar :: "'n JsonValue \<Rightarrow> bool" where
  "is_scalar JNull = True"
| "is_scalar (JBoolean b) = True"
| "is_scalar (JNumber n) = True"
| "is_scalar (JString s) = True"
| "is_scalar v = False"


section \<open>The JavaScript operations the source relies on\<close>

text \<open>\<^verbatim>\<open>index.toString()\<close> of a natural number: its decimal digits.\<close>

fun toString :: "nat \<Rightarrow> string" where
  "toString n =
     (if n < 10 then [''0123456789'' ! n]
      else toString (n div 10) @ [''0123456789'' ! (n mod 10)])"

declare toString.simps [simp del]

text \<open>
  The property key a path segment denotes: \<^verbatim>\<open>clone[head as string]\<close> is only a cast, so a
  number reaching it is converted to its decimal string by the property access.
\<close>

fun propertyKey :: "seg \<Rightarrow> string" where
  "propertyKey (Key k) = k"
| "propertyKey (Idx i) = toString i"





text \<open>\<^verbatim>\<open>acc[key]\<close> on an array: \<^verbatim>\<open>undefined\<close> out of range.\<close>

definition arrayGet :: "'n JsonValue list \<Rightarrow> nat \<Rightarrow> 'n JsonValue" where
  "arrayGet xs i = (if i < length xs then xs ! i else JUndefined)"

text \<open>
  \<^verbatim>\<open>clone[head] = v\<close> on an array: past the end the array grows, and the slots in
  between are holes.
\<close>

definition arraySet :: "nat \<Rightarrow> 'n JsonValue \<Rightarrow> 'n JsonValue list \<Rightarrow> 'n JsonValue list" where
  "arraySet i v xs =
     (if i < length xs then xs[i := v]
      else xs @ replicate (i - length xs) JUndefined @ [v])"

text \<open>\<^verbatim>\<open>obj[key]\<close> on an object: \<^verbatim>\<open>undefined\<close> for a key it does not have.\<close>

definition objectGet :: "(string \<times> 'n JsonValue) list \<Rightarrow> string \<Rightarrow> 'n JsonValue" where
  "objectGet kvs k = (case map_of kvs k of None \<Rightarrow> JUndefined | Some v \<Rightarrow> v)"

text \<open>
  \<^verbatim>\<open>clone[key] = v\<close> on an object. A key the object has keeps its place. A new key is
  listed by \<^verbatim>\<open>Object.entries\<close> after the others, except for an array index (a canonical
  decimal string below \<open>2^32 - 1\<close>): those come first, in ascending numeric order.
\<close>

definition fromDigits :: "string \<Rightarrow> nat" where
  "fromDigits s = foldl (\<lambda>n c. 10 * n + (of_char c - 48)) 0 s"

definition isArrayIndex :: "string \<Rightarrow> bool" where
  "isArrayIndex k \<longleftrightarrow> toString (fromDigits k) = k \<and> fromDigits k < 2 ^ 32 - 1"

fun insertIndexKey :: "string \<Rightarrow> 'v \<Rightarrow> (string \<times> 'v) list \<Rightarrow> (string \<times> 'v) list" where
  "insertIndexKey k v [] = [(k, v)]"
| "insertIndexKey k v ((k', v') # kvs) =
     (if isArrayIndex k' \<and> fromDigits k' < fromDigits k
      then (k', v') # insertIndexKey k v kvs
      else (k, v) # (k', v') # kvs)"

definition objectSet :: "string \<Rightarrow> 'v \<Rightarrow> (string \<times> 'v) list \<Rightarrow> (string \<times> 'v) list" where
  "objectSet k v kvs =
     (if k \<in> fst ` set kvs then AList.update k v kvs
      else if isArrayIndex k then insertIndexKey k v kvs
      else kvs @ [(k, v)])"

section \<open>Path algebra (src/lib/utils.ts)\<close>

text \<open>The callback of the \<^verbatim>\<open>reduce\<close> in \<^verbatim>\<open>getValue\<close>, branch by branch.\<close>

fun getStep :: "'n JsonValue \<Rightarrow> seg \<Rightarrow> 'n JsonValue" where
  "getStep JUndefined key = JUndefined"
| "getStep JNull key = JNull"
| "getStep (JBoolean b) key = JBoolean b"
| "getStep (JNumber n) key = JNumber n"
| "getStep (JString s) key = JString s"
| "getStep (JArray xs) (Idx i) = arrayGet xs i"
| "getStep (JObject kvs) (Key k) = objectGet kvs k"
| "getStep acc key = JUndefined"

definition getValue :: "'n JsonValue \<Rightarrow> JsonPath \<Rightarrow> 'n JsonValue" where
  "getValue root path = foldl getStep root path"

fun setValue :: "'n JsonValue \<Rightarrow> JsonPath \<Rightarrow> 'n JsonValue \<Rightarrow> 'n JsonValue" where
  "setValue root [] val = val"
| "setValue (JArray xs) (head # rest) val =
     (case head of
        Key k \<Rightarrow> JArray xs
      | Idx i \<Rightarrow> JArray (arraySet i (setValue (arrayGet xs i) rest val) xs))"
| "setValue (JObject kvs) (head # rest) val =
     (if rest = [] then JObject (objectSet (propertyKey head) val kvs)
      else JObject (objectSet (propertyKey head)
             (setValue (objectGet kvs (propertyKey head)) rest val) kvs))"
| "setValue root (head # rest) val = root"



section \<open>Host handlers (src/App.svelte)\<close>



definition handleUpdate :: "RunMode \<Rightarrow> JsonPath \<Rightarrow> 'n JsonValue \<Rightarrow> 'n Host \<Rightarrow> 'n Host" where
  "handleUpdate mode path val host =
     (case configStates host mode of
        None \<Rightarrow> host
      | Some state \<Rightarrow>
          host\<lparr>configStates := (configStates host)
                  (mode := Some (state\<lparr>current := setValue (current state) path val\<rparr>)),
               runError := None\<rparr>)"



section \<open>Editor handlers (src/lib/components/JsonEditor.svelte)\<close>

text \<open>
  A handler returns the list of the \<^verbatim>\<open>onUpdate(path, value)\<close> calls it makes, in order.
  \<^verbatim>\<open>Number\<close>, \<^verbatim>\<open>Number.isNaN\<close> and \<^verbatim>\<open>JSON.parse\<close> are the platform's; they are
  parameters, \<open>JSON_parse\<close> returning \<open>None\<close> where \<^verbatim>\<open>JSON.parse\<close> throws.
\<close>

definition handleNumberChange ::
  "(string \<Rightarrow> 'n) \<Rightarrow> JsonPath \<Rightarrow> string \<Rightarrow> (JsonPath \<times> 'n JsonValue) list" where
  "handleNumberChange Number path text =
     (let next = (if text = [] then JNull else JNumber (Number text))
      in [(path, next)])"



section \<open>Sample inputs\<close>

text \<open>
  Stand-ins for the platform functions on the examples below: numbers are \<open>int option\<close>
  with \<open>None\<close> for NaN, \<open>sampleNumber\<close> reads unsigned decimal literals, and
  \<open>sampleParse\<close> parses two JSON texts and throws on the rest.
\<close>

definition sampleNumber :: "string \<Rightarrow> int option" where
  "sampleNumber s =
     (if list_all (\<lambda>c. c \<in> set ''0123456789'') s then Some (int (fromDigits s)) else None)"



definition sampleState :: "int ConfigState" where
  "sampleState =
     \<lparr>defaults = JObject [(''a'', JNumber 1)], current = JObject [(''a'', JNumber 1)],
      important = {''a''}, source = Fallback, lastLoadedPath = None, persistedPath = None\<rparr>"

definition sampleHost :: "int Host" where
  "sampleHost =
     \<lparr>configStates = (\<lambda>m. None)(BuildSpecLib := Some sampleState),
      runError = Some ''failed''\<rparr>"

section \<open>Predicates of the statements\<close>









section \<open>The number field\<close>

text \<open>
  C8, as the code has it: a commit on a number field always emits exactly one callback at
  the node's path. Its value is \<open>null\<close> when the entered text is empty and the
  result of \<open>Number\<close> on the text otherwise, whether or not that is NaN.
\<close>

theorem handleNumberChange_emits:
  "length (handleNumberChange Number path text) = 1 \<and>
   (text = [] \<longrightarrow> handleNumberChange Number path text = [(path, JNull)]) \<and>
   (text \<noteq> [] \<longrightarrow> handleNumberChange Number path text = [(path, JNumber (Number text))])"
  by (simp add: handleNumberChange_def)

theorem handleNumberChange_emits_witness:
  "handleNumberChange sampleNumber [Key ''tol''] ''12'' = [([Key ''tol''], JNumber (Some 12))]"
  using handleNumberChange_emits [of sampleNumber "[Key ''tol'']" "''12''"]
  by (simp add: sampleNumber_def fromDigits_def)

text \<open>
  The claim of C8 fails: an empty entry emits a callback carrying \<open>null\<close>, and an
  entry that is not a number emits a callback carrying NaN.
\<close>

theorem handleNumberChange_counterexample:
  "handleNumberChange sampleNumber [Key ''tol''] [] = [([Key ''tol''], JNull)] \<and>
   handleNumberChange sampleNumber [Key ''tol''] ''abc'' = [([Key ''tol''], JNumber None)]"
  by (simp add: handleNumberChange_def sampleNumber_def)

section \<open>The update handler\<close>

text \<open>
  C10: \<open>handleUpdate\<close> replaces only the \<open>current\<close> field of the state of the mode
  it is called for, by \<open>setValue\<close> applied to the previous \<open>current\<close>; the other five
  fields of that state and the state of every other mode are unchanged. A mode that has no
  state yet leaves the host as it is.
\<close>

theorem handleUpdate_frame:
  "(configStates host mode = None \<longrightarrow> handleUpdate mode path val host = host) \<and>
   (\<forall>state. configStates host mode = Some state \<longrightarrow>
      configStates (handleUpdate mode path val host) mode =
        Some (state\<lparr>current := setValue (current state) path val\<rparr>)) \<and>
   (\<forall>state state'. configStates host mode = Some state \<longrightarrow>
      configStates (handleUpdate mode path val host) mode = Some state' \<longrightarrow>
        current state' = setValue (current state) path val \<and>
        defaults state' = defaults state \<and> important state' = important state \<and>
        source state' = source state \<and> lastLoadedPath state' = lastLoadedPath state \<and>
        persistedPath state' = persistedPath state) \<and>
   (\<forall>m. m \<noteq> mode \<longrightarrow>
      configStates (handleUpdate mode path val host) m = configStates host m)"
  by (auto simp: handleUpdate_def split: option.splits)

theorem handleUpdate_frame_witness:
  "configStates (handleUpdate BuildSpecLib [Key ''a''] (JNumber 2) sampleHost) BuildSpecLib =
     Some (sampleState\<lparr>current := JObject [(''a'', JNumber 2)]\<rparr>) \<and>
   configStates (handleUpdate BuildSpecLib [Key ''a''] (JNumber 2) sampleHost) SearchDia = None \<and>
   handleUpdate SearchDia [Key ''a''] (JNumber 2) sampleHost = sampleHost"
  using handleUpdate_frame [of sampleHost BuildSpecLib "[Key ''a'']" "JNumber 2"]
        handleUpdate_frame [of sampleHost SearchDia "[Key ''a'']" "JNumber 2"]
  by (simp add: sampleHost_def sampleState_def objectSet_def)

section \<open>Reading and writing at a path\<close>

lemma getValue_Nil [simp]: "getValue v [] = v"
  by (simp add: getValue_def)

lemma getValue_Cons [simp]: "getValue v (s # p) = getValue (getStep v s) p"
  by (simp add: getValue_def)


lemma getValue_undefined [simp]: "getValue JUndefined p = JUndefined"
  by (induction p) simp_all










lemma setValue_scalar: "is_scalar v \<Longrightarrow> p \<noteq> [] \<Longrightarrow> setValue v p x = v"
  by (cases p; cases v) simp_all



















section \<open>Merging onto the defaults\<close>






section \<open>The array text block\<close>






section \<open>Leaf paths\<close>















section \<open>The important paths\<close>















end
